theory Spec2Isabelle
  imports Main "HOL-Library.AList"
begin

section \<open>Data model of HmIPPlatform.ts\<close>

text \<open>
  The payload types \<open>HmIPHome\<close>, \<open>HmIPGroup\<close> and \<open>HmIPDevice\<close> are declared in
  \<open>HmIPState.ts\<close>. The records below hold the fields that \<open>HmIPPlatform.ts\<close> reads or
  writes; everything else the hub sends is kept in one opaque payload field. The three
  fields that \<open>setHome\<close> writes are optional, since a home as received from the hub does
  not carry them.
\<close>

record HmIPHome =
  home_id :: string
  currentAPVersion :: string
  oem :: "string option"
  home_modelType :: "string option"
  firmwareVersion :: "string option"
  home_payload :: string

record HmIPGroup =
  group_id :: string
  group_payload :: string

record HmIPDevice =
  device_id :: string
  device_type :: string
  label :: string
  modelType :: string
  device_payload :: string

text \<open>
  \<open>createAccessory\<close> takes \<open>deviceContext: any\<close>; the two callers in the file pass a
  device (\<open>updateAccessory\<close>) or a home (\<open>updateHomeWeatherAccessory\<close>).
\<close>

datatype deviceContext = DeviceContext HmIPDevice | HomeContext HmIPHome

text \<open>
  A \<open>PlatformAccessory\<close> is a mutable object shared between the list
  \<open>this.accessories\<close>, the \<open>HmIPAccessory\<close> wrapper and the device handles, so the
  model keeps accessory objects in a store and passes references (indices into the
  store). \<open>context_device\<close> is \<open>accessory.context.device\<close>, \<open>None\<close> while it is
  undefined.
\<close>

type_synonym ref = nat

record PlatformAccessory =
  UUID :: string
  displayName :: string
  context_device :: "deviceContext option"

text \<open>
  \<open>new HmIPAccessory(api, log, accessory, existing)\<close>: the wrapper keeps the accessory
  and the flag computed by \<open>existingAccessory != null\<close>.
\<close>

record HmIPAccessory =
  accessory :: ref
  existing :: bool

text \<open>
  The device classes are constructed as \<open>new HmIPShutter(this, home, accessory)\<close>; the
  platform later reads \<open>.accessory\<close>, writes \<open>.home\<close> and calls \<open>.updateDevice\<close>. A handle
  is the class that was instantiated together with the home and accessory it was given.
  The home is optional because \<open>this.home\<close>, which is what the platform passes, can be
  undefined.
\<close>

datatype behaviour = HmIPThermostat | HmIPShutter | HmIPHomeControlAccessPoint

record HmIPGenericDevice =
  behaviour :: behaviour
  device_home :: "HmIPHome option"
  device_accessory :: ref

text \<open>
  \<open>groups\<close> is a plain object of type \<open>{ [key: string]: HmIPGroup }\<close>. The file assigns
  to it, deletes from it and passes it on, and never enumerates it. The model keeps the
  object's own properties as a finite map, which says nothing about their order, and
  the object's prototype: \<open>None\<close> is \<open>Object.prototype\<close>, which every object parsed
  from JSON has, and \<open>Some g\<close> is a group payload installed by an assignment to
  \<open>__proto__\<close>.
\<close>

record HmIPGroups =
  own :: "string \<rightharpoonup> HmIPGroup"
  prototype :: "HmIPGroup option"

text \<open>
  \<open>hmIPState.devices\<close> and the \<open>Map\<close> in \<open>deviceMap\<close> are association lists.
  \<open>devices\<close> lists the own properties of the snapshot's object in the order in which
  \<open>for ... in\<close> visits them; the file only reads and deletes them, and
  \<open>delete obj[k]\<close> is \<open>AList.delete\<close>. \<open>deviceMap\<close> is in insertion order: \<open>Map.set\<close>
  is \<open>AList.update\<close> (an existing key keeps its place, a new key goes to the end),
  \<open>Map.delete\<close> is \<open>AList.delete\<close>, \<open>Map.get\<close> and \<open>Map.has\<close> are \<open>map_of\<close>, and
  \<open>forEach\<close> walks the list from the front.
\<close>

record HmIPState =
  state_home :: HmIPHome
  state_groups :: HmIPGroups
  state_devices :: "(string \<times> HmIPDevice) list"

record event =
  pushEventType :: string
  ev_group :: "HmIPGroup option"
  ev_device :: "HmIPDevice option"
  ev_home :: "HmIPHome option"

text \<open>
  The fields of the platform object. \<open>home\<close> is declared \<open>private home!: HmIPHome\<close> and
  is undefined until assigned, hence optional. \<open>groups\<close> is assigned at the start of
  \<open>discoverDevices\<close>, before the subscription callback (its only reader) exists, so it is
  modelled at its declared type. \<open>heap\<close> is the store of accessory objects.
\<close>

record HmIPPlatform =
  accessories :: "ref list"
  groups :: HmIPGroups
  home :: "HmIPHome option"
  deviceMap :: "(string \<times> HmIPGenericDevice) list"
  heap :: "PlatformAccessory list"

subsection \<open>Calls that leave the platform\<close>

datatype level = Debug | Info | Warn

datatype logarg =
    Text string
  | Json_device HmIPDevice
  | Json_home HmIPHome
  | Joined "ref list"
  | Str_group "HmIPGroup option"
  | Str_device "HmIPDevice option"

datatype jsarg =
    Arg_home "HmIPHome option"
  | Arg_device HmIPDevice
  | Arg_groups HmIPGroups
  | Arg_handle HmIPGenericDevice

text \<open>
  Every call on a collaborator is recorded, in program order:
  \<^item> \<open>Log\<close>: \<open>this.log.debug/info/warn\<close> with its message;
  \<^item> \<open>Connector_init\<close>, \<open>Connector_apiCall\<close>, \<open>Connector_connectWs\<close>: the three calls on
    \<open>this.connector\<close>;
  \<^item> \<open>Construct\<close>: \<open>new HmIPThermostat/HmIPShutter/HmIPHomeControlAccessPoint\<close>;
  \<^item> \<open>Register\<close>: \<open>hmIPAccessory.register()\<close>;
  \<^item> \<open>UnregisterPlatformAccessories\<close>: \<open>this.api.unregisterPlatformAccessories\<close> with
    its list of accessories (the two name constants are the same in every call);
  \<^item> \<open>UpdateDevice\<close>: \<open>handle.updateDevice(args)\<close>, with the receiver and the arguments
    in the order the call passes them.
\<close>

datatype effect =
    Log level "logarg list"
  | Connector_init
  | Connector_apiCall string
  | Connector_connectWs
  | Construct HmIPGenericDevice
  | Register HmIPAccessory
  | UnregisterPlatformAccessories "ref list"
  | UpdateDevice HmIPGenericDevice "jsarg list"

fun isRegister :: "effect \<Rightarrow> bool" where
  "isRegister (Register _) = True"
| "isRegister _ = False"

fun isUnregister :: "effect \<Rightarrow> bool" where
  "isUnregister (UnregisterPlatformAccessories _) = True"
| "isUnregister _ = False"

fun isUpdateDevice :: "effect \<Rightarrow> bool" where
  "isUpdateDevice (UpdateDevice _ _) = True"
| "isUpdateDevice _ = False"

section \<open>The platform\<close>

text \<open>
  The field initialisers of the class: no accessories, an empty \<open>Map\<close>. \<open>home\<close> and
  \<open>groups\<close> have no initialiser; the \<open>no_groups\<close> of the model stands for the
  unassigned field and is replaced by discovery before anything reads it.
\<close>

text \<open>The object \<open>{}\<close>.\<close>

definition no_groups :: HmIPGroups where
  "no_groups = \<lparr>own = Map.empty, prototype = None\<rparr>"

definition new_platform :: HmIPPlatform where
  "new_platform =
     \<lparr>accessories = [], groups = no_groups, home = None, deviceMap = [], heap = []\<rparr>"

text \<open>
  \<open>obj[k] = v\<close> on the groups object. An own property \<open>k\<close> is overwritten. Otherwise
  the property is looked up along the prototype chain, whose only setter is
  \<open>__proto__\<close> of \<open>Object.prototype\<close>: for that key the prototype of \<open>obj\<close> is replaced
  by \<open>v\<close> and no property is created; every other key becomes a new own property. A
  group payload in the chain does not end the lookup, since by its declared type it has
  no property \<open>__proto__\<close> of its own.
\<close>

definition assign_property :: "string \<Rightarrow> HmIPGroup \<Rightarrow> HmIPGroups \<Rightarrow> HmIPGroups" where
  "assign_property k v obj =
     (if k = ''__proto__'' \<and> own obj k = None
      then obj\<lparr>prototype := Some v\<rparr>
      else obj\<lparr>own := (own obj)(k \<mapsto> v)\<rparr>)"

text \<open>\<open>delete obj[k]\<close>: the own property \<open>k\<close> goes, if there is one.\<close>

definition delete_property :: "string \<Rightarrow> HmIPGroups \<Rightarrow> HmIPGroups" where
  "delete_property k obj = obj\<lparr>own := (own obj)(k := None)\<rparr>"

text \<open>
  \<open>this.accessories.find(accessoryFound => accessoryFound.UUID === uuid)\<close>. A
  reference that denotes no object of the store, which the program cannot hold, matches
  nothing.
\<close>

definition getAccessory :: "string \<Rightarrow> HmIPPlatform \<Rightarrow> ref option" where
  "getAccessory uuid p =
     find (\<lambda>accessoryFound.
             accessoryFound < length (heap p) \<and> UUID (heap p ! accessoryFound) = uuid)
          (accessories p)"

text \<open>
  \<open>configureAccessory\<close>: homebridge hands over a restored accessory object; it enters
  the store, and is pushed onto \<open>this.accessories\<close> unless one with the same UUID is
  already there.
\<close>

definition configureAccessory ::
  "PlatformAccessory \<Rightarrow> HmIPPlatform \<Rightarrow> HmIPPlatform \<times> effect list" where
  "configureAccessory a p =
     (let r = length (heap p);
          p1 = p\<lparr>heap := heap p @ [a]\<rparr>
      in if getAccessory (UUID a) p = None
         then (p1\<lparr>accessories := accessories p1 @ [r]\<rparr>,
               [Log Info [Text ''Loading accessory from cache:'', Text (displayName a)]])
         else (p1, []))"

text \<open>
  \<open>createAccessory\<close>: look the UUID up; log when it is not found; reuse the accessory
  found or construct \<open>new this.api.platformAccessory(displayName, uuid)\<close> (a new object
  in the store, with an empty context); overwrite \<open>accessory.context.device\<close>; wrap.
  The new object is not pushed onto \<open>this.accessories\<close>.
\<close>

definition createAccessory ::
  "string \<Rightarrow> string \<Rightarrow> deviceContext \<Rightarrow> HmIPPlatform
     \<Rightarrow> HmIPAccessory \<times> HmIPPlatform \<times> effect list" where
  "createAccessory uuid name ctx p =
     (let existingAccessory = getAccessory uuid p;
          fx = (case existingAccessory of
                  None \<Rightarrow> [Log Debug [Text ''Could not find existing accessory in pool: '',
                                       Joined (accessories p)]]
                | Some _ \<Rightarrow> []);
          (acc, h) = (case existingAccessory of
                        Some r \<Rightarrow> (r, heap p)
                      | None \<Rightarrow> (length (heap p),
                                 heap p @ [\<lparr>UUID = uuid, displayName = name,
                                            context_device = None\<rparr>]));
          h' = h[acc := (h ! acc)\<lparr>context_device := Some ctx\<rparr>]
      in (\<lparr>accessory = acc, existing = (existingAccessory \<noteq> None)\<rparr>,
          p\<lparr>heap := h'\<rparr>, fx))"

text \<open>\<open>updateHomeAccessories\<close>: the body is a comment.\<close>

definition updateHomeAccessories :: "HmIPHome \<Rightarrow> HmIPPlatform \<Rightarrow> HmIPPlatform" where
  "updateHomeAccessories h p = p"

text \<open>
  \<open>setHome\<close> writes three fields of the home object it is given and calls
  \<open>updateHomeAccessories\<close>. The object is mutated in place, so the caller's expression
  (\<open>hmIPState.home\<close>, \<open>event.home\<close>) denotes the returned home afterwards. No statement
  assigns \<open>this.home\<close>.
\<close>

definition normalize :: "HmIPHome \<Rightarrow> HmIPHome" where
  "normalize h =
     h\<lparr>oem := Some ''eQ-3'', home_modelType := Some ''HmIPHome'',
       firmwareVersion := Some (currentAPVersion h)\<rparr>"

definition setHome :: "HmIPHome \<Rightarrow> HmIPPlatform \<Rightarrow> HmIPHome \<times> HmIPPlatform" where
  "setHome h p = (let h' = normalize h in (h', updateHomeAccessories h' p))"

text \<open>
  The constructor chosen by \<open>updateAccessory\<close> for a declared type; \<open>None\<close> is the final
  \<open>else\<close> branch.
\<close>

definition behaviour_of :: "string \<Rightarrow> behaviour option" where
  "behaviour_of t =
     (if t = ''WALL_MOUNTED_THERMOSTAT_PRO'' then Some HmIPThermostat
      else if t = ''FULL_FLUSH_SHUTTER'' then Some HmIPShutter
      else if t = ''HOME_CONTROL_ACCESS_POINT'' then Some HmIPHomeControlAccessPoint
      else None)"

text \<open>
  \<open>updateAccessory(id, home, device)\<close>. \<open>generate\<close> is \<open>this.api.hap.uuid.generate\<close>, a
  function of the homebridge library.
\<close>

definition updateAccessory ::
  "(string \<Rightarrow> string) \<Rightarrow> string \<Rightarrow> HmIPHome option \<Rightarrow> HmIPDevice \<Rightarrow> HmIPPlatform
     \<Rightarrow> HmIPPlatform \<times> effect list" where
  "updateAccessory generate ident hm device p =
     (let uuid = generate ident;
          (hmIPAccessory, p1, fx) = createAccessory uuid (label device) (DeviceContext device) p
      in case behaviour_of (device_type device) of
           None \<Rightarrow>
             (p1, fx @ [Log Warn [Text (''Device not implemented: '' @ modelType device
                                        @ '' - '' @ label device)]])
         | Some b \<Rightarrow>
             (let homebridgeDevice =
                    \<lparr>behaviour = b, device_home = hm,
                     device_accessory = accessory hmIPAccessory\<rparr>
              in (p1\<lparr>deviceMap := AList.update ident homebridgeDevice (deviceMap p1)\<rparr>,
                  fx @ (if b = HmIPHomeControlAccessPoint
                        then [Log Debug [Text ''Creating: '', Json_device device]] else [])
                     @ [Construct homebridgeDevice, Register hmIPAccessory])))"

text \<open>
  The loop \<open>for (const id in hmIPState.devices)\<close> of \<open>discoverDevices\<close>; \<open>this.home\<close> is
  read anew in every round.
\<close>

fun bindDevices ::
  "(string \<Rightarrow> string) \<Rightarrow> (string \<times> HmIPDevice) list \<Rightarrow> HmIPPlatform
     \<Rightarrow> HmIPPlatform \<times> effect list" where
  "bindDevices generate [] p = (p, [])"
| "bindDevices generate ((ident, device) # rest) p =
     (let (p1, fx1) = updateAccessory generate ident (home p) device p;
          (p2, fx2) = bindDevices generate rest p1
      in (p2, fx1 @ fx2))"

text \<open>
  What the subscription callback can reach: the platform and the snapshot object
  \<open>hmIPState\<close> captured by the closure. \<open>this.groups\<close> and \<open>hmIPState.groups\<close> are the
  same object after \<open>this.groups = hmIPState.groups\<close>; the model holds it in both
  records and every write to the one is followed by the same write to the other, as in
  the source.
\<close>

record engine =
  platform :: HmIPPlatform
  hmIPState :: HmIPState

text \<open>
  \<open>discoverDevices\<close>, up to and including the subscription. \<open>init_ok\<close> is what
  \<open>connector.init()\<close> resolves to and \<open>snapshot\<close> what the call of
  \<open>home/getCurrentState\<close> returns. The result is the platform afterwards, the closure's
  \<open>hmIPState\<close> when the callback was subscribed, and the calls made.
\<close>

definition discoverDevices ::
  "(string \<Rightarrow> string) \<Rightarrow> bool \<Rightarrow> HmIPState \<Rightarrow> HmIPPlatform
     \<Rightarrow> HmIPPlatform \<times> HmIPState option \<times> effect list" where
  "discoverDevices generate init_ok snapshot p =
     (if \<not> init_ok then (p, None, [Connector_init])
      else
        (let p1 = p\<lparr>groups := state_groups snapshot\<rparr>;
             (h, p2) = setHome (state_home snapshot) p1;
             st = snapshot\<lparr>state_home := h\<rparr>;
             (p3, fx) = bindDevices generate (state_devices st) p2
         in (p3, Some st,
             [Connector_init, Connector_apiCall ''home/getCurrentState'']
               @ fx @ [Connector_connectWs])))"

text \<open>One round of the \<open>switch\<close> in the subscription callback.\<close>

definition handleEvent :: "event \<Rightarrow> engine \<Rightarrow> engine \<times> effect list" where
  "handleEvent ev e =
     (let t = pushEventType ev; p = platform e; s = hmIPState e in
      if t = ''GROUP_CHANGED'' \<or> t = ''GROUP_ADDED'' then
        (case ev_group ev of
           None \<Rightarrow> (e, [])
         | Some g \<Rightarrow>
             (\<lparr>platform = p\<lparr>groups := assign_property (group_id g) g (groups p)\<rparr>,
               hmIPState =
                 s\<lparr>state_groups := assign_property (group_id g) g (state_groups s)\<rparr>\<rparr>,
              [Log Debug [Text (t @ '': '' @ group_id g)]]))
      else if t = ''GROUP_REMOVED'' then
        (case ev_group ev of
           None \<Rightarrow> (e, [])
         | Some g \<Rightarrow>
             (\<lparr>platform = p\<lparr>groups := delete_property (group_id g) (groups p)\<rparr>,
               hmIPState =
                 s\<lparr>state_groups := delete_property (group_id g) (state_groups s)\<rparr>\<rparr>,
              [Log Debug [Text (t @ '': '' @ group_id g)]]))
      else if t = ''DEVICE_REMOVED'' then
        (case ev_device ev of
           None \<Rightarrow> (e, [])
         | Some d \<Rightarrow>
             (case map_of (deviceMap p) (device_id d) of
                Some hmIPDevice \<Rightarrow>
                  (\<lparr>platform = p\<lparr>deviceMap := AList.delete (device_id d) (deviceMap p)\<rparr>,
                    hmIPState =
                      s\<lparr>state_devices := AList.delete (device_id d) (state_devices s)\<rparr>\<rparr>,
                   [Log Debug [Text (t @ '': '' @ device_id d @ '' '' @ modelType d)],
                    UnregisterPlatformAccessories [device_accessory hmIPDevice]])
              | None \<Rightarrow>
                  (e, [Log Debug [Text (t @ '': '' @ device_id d @ '' '' @ modelType d)],
                       Log Warn [Text (''Cannot find device: '' @ device_id d)]])))
      else if t = ''DEVICE_CHANGED'' \<or> t = ''DEVICE_ADDED'' then
        (case ev_device ev of
           None \<Rightarrow> (e, [])
         | Some d \<Rightarrow>
             (case map_of (deviceMap p) (device_id d) of
                Some hmIPDevice \<Rightarrow>
                  (e, [Log Debug [Text (t @ '': '' @ device_id d @ '' '' @ modelType d)],
                       UpdateDevice hmIPDevice
                         [Arg_home (home p), Arg_device d, Arg_groups (groups p)]])
              | None \<Rightarrow>
                  (e, [Log Debug [Text (t @ '': '' @ device_id d @ '' '' @ modelType d)],
                       Log Warn [Text (''Cannot find device: '' @ device_id d)]])))
      else if t = ''HOME_CHANGED'' then
        (case ev_home ev of
           None \<Rightarrow> (e, [])
         | Some h \<Rightarrow>
             (let (h', p1) = setHome h p;
                  dm = map (\<lambda>(k, device). (k, device\<lparr>device_home := Some h'\<rparr>)) (deviceMap p1)
              in (\<lparr>platform = p1\<lparr>deviceMap := dm\<rparr>, hmIPState = s\<rparr>,
                  Log Debug [Text (t @ '': '' @ home_id h @ '' ''), Json_home h]
                    # map (\<lambda>(k, device).
                             UpdateDevice device [Arg_handle device, Arg_groups (groups p1)])
                          dm)))
      else
        (e, [Log Debug [Text (''Unhandled event type: '' @ t @ '' group=''),
                        Str_group (ev_group ev), Text '' device='',
                        Str_device (ev_device ev)]]))"

text \<open>
  The callback: \<open>for (const id in stateChange.events)\<close> over the events of one parsed
  message, and the feed: the callback on one message after the other.
\<close>

fun onMessage :: "event list \<Rightarrow> engine \<Rightarrow> engine \<times> effect list" where
  "onMessage [] e = (e, [])"
| "onMessage (ev # evs) e =
     (let (e1, fx1) = handleEvent ev e;
          (e2, fx2) = onMessage evs e1
      in (e2, fx1 @ fx2))"

fun feed :: "event list list \<Rightarrow> engine \<Rightarrow> engine \<times> effect list" where
  "feed [] e = (e, [])"
| "feed (msg # msgs) e =
     (let (e1, fx1) = onMessage msg e;
          (e2, fx2) = feed msgs e1
      in (e2, fx1 @ fx2))"

text \<open>
  The run of the program: discovery, then the messages that the feed delivers to the
  subscribed callback. Without a subscription no message is handled.
\<close>

definition lifecycle ::
  "(string \<Rightarrow> string) \<Rightarrow> bool \<Rightarrow> HmIPState \<Rightarrow> event list list \<Rightarrow> HmIPPlatform
     \<Rightarrow> HmIPPlatform \<times> HmIPState option \<times> effect list" where
  "lifecycle generate init_ok snapshot msgs p =
     (case discoverDevices generate init_ok snapshot p of
        (p1, None, fx) \<Rightarrow> (p1, None, fx)
      | (p1, Some st, fx) \<Rightarrow>
          (let (e, fx2) = feed msgs \<lparr>platform = p1, hmIPState = st\<rparr>
           in (platform e, Some (hmIPState e), fx @ fx2)))"

text \<open>Two calls of \<open>createAccessory\<close> for the same UUID, one after the other.\<close>

definition resolve_twice ::
  "string \<Rightarrow> string \<Rightarrow> deviceContext \<Rightarrow> string \<Rightarrow> deviceContext \<Rightarrow> HmIPPlatform
     \<Rightarrow> HmIPAccessory \<times> HmIPAccessory \<times> HmIPPlatform \<times> effect list" where
  "resolve_twice uuid name1 ctx1 name2 ctx2 p =
     (let (a1, p1, fx1) = createAccessory uuid name1 ctx1 p;
          (a2, p2, fx2) = createAccessory uuid name2 ctx2 p1
      in (a1, a2, p2, fx1 @ fx2))"

section \<open>Concrete inputs\<close>

text \<open>
  Payloads, events and a discovered state used to run the definitions: one shutter
  \<open>d1\<close> labelled \<open>Shutter\<close>, bound from an empty accessory cache.
\<close>

definition scenario_home :: "string \<Rightarrow> HmIPHome" where
  "scenario_home v =
     \<lparr>home_id = ''home'', currentAPVersion = v, oem = None, home_modelType = None,
      firmwareVersion = None, home_payload = ''''\<rparr>"

definition scenario_device :: "string \<Rightarrow> string \<Rightarrow> string \<Rightarrow> HmIPDevice" where
  "scenario_device i t l =
     \<lparr>device_id = i, device_type = t, label = l, modelType = ''HmIP'', device_payload = ''''\<rparr>"


definition scenario_snapshot :: HmIPState where
  "scenario_snapshot =
     \<lparr>state_home = scenario_home ''1.0'', state_groups = no_groups,
      state_devices = [(''d1'', scenario_device ''d1'' ''FULL_FLUSH_SHUTTER'' ''Shutter'')]\<rparr>"

definition scenario_engine :: engine where
  "scenario_engine =
     \<lparr>platform =
        \<lparr>accessories = [], groups = no_groups, home = None,
         deviceMap = [(''d1'', \<lparr>behaviour = HmIPShutter, device_home = None,
                                device_accessory = 0\<rparr>)],
         heap = [\<lparr>UUID = ''uuid-d1'', displayName = ''Shutter'',
                  context_device =
                    Some (DeviceContext
                            (scenario_device ''d1'' ''FULL_FLUSH_SHUTTER'' ''Shutter''))\<rparr>]\<rparr>,
      hmIPState = scenario_snapshot\<lparr>state_home := normalize (scenario_home ''1.0'')\<rparr>\<rparr>"

definition device_event :: "string \<Rightarrow> HmIPDevice \<Rightarrow> event" where
  "device_event t d =
     \<lparr>pushEventType = t, ev_group = None, ev_device = Some d, ev_home = None\<rparr>"


definition home_event :: "HmIPHome \<Rightarrow> event" where
  "home_event h =
     \<lparr>pushEventType = ''HOME_CHANGED'', ev_group = None, ev_device = None, ev_home = Some h\<rparr>"

definition scenario_snapshot2 :: HmIPState where
  "scenario_snapshot2 =
     \<lparr>state_home = scenario_home ''1.0'', state_groups = no_groups,
      state_devices = [(''d1'', scenario_device ''d1'' ''FULL_FLUSH_SHUTTER'' ''Shutter''),
                       (''d2'', scenario_device ''d2'' ''SMOKE'' ''Smoke''),
                       (''d3'', scenario_device ''d3'' ''WALL_MOUNTED_THERMOSTAT_PRO'' ''Wall'')]\<rparr>"

text \<open>A platform to which homebridge has restored one accessory, for device \<open>d2\<close>.\<close>

definition scenario_cached :: HmIPPlatform where
  "scenario_cached =
     fst (configureAccessory
            \<lparr>UUID = ''uuid-d2'', displayName = ''Smoke'', context_device = None\<rparr> new_platform)"

text \<open>
  A snapshot with two shutters, and a UUID generator that keeps the first four
  characters of the identity (padded), so that all its results have one length.
\<close>

definition two_shutters :: "string \<Rightarrow> string \<Rightarrow> HmIPState" where
  "two_shutters a b =
     \<lparr>state_home = scenario_home ''1.0'', state_groups = no_groups,
      state_devices = [(a, scenario_device a ''FULL_FLUSH_SHUTTER'' ''Left''),
                       (b, scenario_device b ''FULL_FLUSH_SHUTTER'' ''Right'')]\<rparr>"


section \<open>Properties of states\<close>

text \<open>
  Every reference in \<open>this.accessories\<close> denotes an object of the store. In the program
  a reference always denotes an object; in the model this is a condition on the state.
\<close>

definition valid_refs :: "HmIPPlatform \<Rightarrow> bool" where
  "valid_refs p = list_all (\<lambda>r. r < length (heap p)) (accessories p)"


text \<open>
  The accessory identities of the device binding table: the UUID of the accessory of
  every entry, in the order of the entries.
\<close>

definition accessory_identities :: "HmIPPlatform \<Rightarrow> string list" where
  "accessory_identities p =
     map (\<lambda>(k, h). UUID (heap p ! device_accessory h)) (deviceMap p)"

section \<open>The accessory store\<close>

text \<open>
  What \<open>getAccessory\<close> finds is in \<open>this.accessories\<close> and carries the UUID asked for.
  Overwriting a context, or adding objects to the store, does not change what it finds.
\<close>

lemma getAccessory_Some:
  "getAccessory uuid p = Some r \<Longrightarrow>
     r \<in> set (accessories p) \<and> r < length (heap p) \<and> UUID (heap p ! r) = uuid"
  by (auto simp: getAccessory_def find_Some_iff)

lemma UUID_context_update:
  "a < length h \<Longrightarrow> UUID (h[r := (h ! r)\<lparr>context_device := c\<rparr>] ! a) = UUID (h ! a)"
  by (cases "a = r") simp_all

lemma getAccessory_context_update:
  "getAccessory uuid (p\<lparr>heap := (heap p)[r := (heap p ! r)\<lparr>context_device := c\<rparr>]\<rparr>)
     = getAccessory uuid p"
proof -
  have "(\<lambda>a. a < length (heap p)
              \<and> UUID ((heap p)[r := (heap p ! r)\<lparr>context_device := c\<rparr>] ! a) = uuid)
        = (\<lambda>a. a < length (heap p) \<and> UUID (heap p ! a) = uuid)"
    by (rule ext) (auto simp: UUID_context_update)
  then show ?thesis by (simp add: getAccessory_def)
qed

lemma getAccessory_alloc:
  assumes "list_all (\<lambda>r. r < length (heap p)) (accessories p)"
  shows "getAccessory uuid (p\<lparr>heap := heap p @ xs\<rparr>) = getAccessory uuid p"
proof -
  have "find (\<lambda>a. a < length (heap p @ xs) \<and> UUID ((heap p @ xs) ! a) = uuid) (accessories p)
        = find (\<lambda>a. a < length (heap p) \<and> UUID (heap p ! a) = uuid) (accessories p)"
    using assms by (intro find_cong) (auto simp: list_all_iff nth_append)
  then show ?thesis by (simp add: getAccessory_def)
qed

text \<open>The two branches of \<open>createAccessory\<close>.\<close>

lemma createAccessory_cached:
  assumes "getAccessory uuid p = Some r"
  shows "createAccessory uuid name ctx p =
           (\<lparr>accessory = r, existing = True\<rparr>,
            p\<lparr>heap := (heap p)[r := (heap p ! r)\<lparr>context_device := Some ctx\<rparr>]\<rparr>, [])"
  using assms by (simp add: createAccessory_def)

lemma createAccessory_absent:
  assumes "getAccessory uuid p = None"
  shows "createAccessory uuid name ctx p =
           (\<lparr>accessory = length (heap p), existing = False\<rparr>,
            p\<lparr>heap := heap p @ [\<lparr>UUID = uuid, displayName = name,
                                  context_device = Some ctx\<rparr>]\<rparr>,
            [Log Debug [Text ''Could not find existing accessory in pool: '',
                        Joined (accessories p)]])"
  using assms by (simp add: createAccessory_def)

lemma createAccessory_no_register:
  "filter isRegister (snd (snd (createAccessory uuid name ctx p))) = []"
  by (simp add: createAccessory_def Let_def split_def split: option.splits)

lemma createAccessory_frame:
  assumes "createAccessory uuid name ctx p = (a, p1, fx)"
  shows "accessories p1 = accessories p" and "deviceMap p1 = deviceMap p"
    and "groups p1 = groups p" and "home p1 = home p"
    and "length (heap p) \<le> length (heap p1)"
    and "\<And>i. i < length (heap p) \<Longrightarrow> UUID (heap p1 ! i) = UUID (heap p ! i)"
    and "accessory a < length (heap p1)" and "UUID (heap p1 ! accessory a) = uuid"
    and "context_device (heap p1 ! accessory a) = Some ctx"
proof -
  show "accessories p1 = accessories p" "deviceMap p1 = deviceMap p"
       "groups p1 = groups p" "home p1 = home p" "length (heap p) \<le> length (heap p1)"
    using assms by (auto simp: createAccessory_def Let_def split: option.splits)
  show "\<And>i. i < length (heap p) \<Longrightarrow> UUID (heap p1 ! i) = UUID (heap p ! i)"
  proof (cases "getAccessory uuid p")
    case None
    fix i assume "i < length (heap p)"
    with None assms show "UUID (heap p1 ! i) = UUID (heap p ! i)"
      by (auto simp: createAccessory_absent nth_append)
  next
    case (Some r)
    fix i assume "i < length (heap p)"
    with Some assms show "UUID (heap p1 ! i) = UUID (heap p ! i)"
      by (auto simp: createAccessory_cached UUID_context_update)
  qed
  show "accessory a < length (heap p1)"
    using assms getAccessory_Some [of uuid p]
    by (cases "getAccessory uuid p") (auto simp: createAccessory_absent createAccessory_cached)
  show "UUID (heap p1 ! accessory a) = uuid"
    using assms getAccessory_Some [of uuid p]
    by (cases "getAccessory uuid p")
       (auto simp: createAccessory_absent createAccessory_cached UUID_context_update)
  show "context_device (heap p1 ! accessory a) = Some ctx"
    using assms getAccessory_Some [of uuid p]
    by (cases "getAccessory uuid p") (auto simp: createAccessory_absent createAccessory_cached)
qed

text \<open>
  C8, as amended. \<open>createAccessory\<close> makes no registration call and its flag tells
  whether an accessory with the UUID was found in \<open>this.accessories\<close>. When one is
  found, both of two successive calls return that same accessory, and its context is
  the one of the second call. When none is found, each call constructs an accessory of
  its own with the given display name and context and leaves \<open>this.accessories\<close> as it
  was: two calls leave two accessories with the same UUID, the first still holding the
  first context.
\<close>

theorem resolve_accessory:
  "(getAccessory uuid p = Some r \<longrightarrow>
      resolve_twice uuid name1 ctx1 name2 ctx2 p =
        (\<lparr>accessory = r, existing = True\<rparr>, \<lparr>accessory = r, existing = True\<rparr>,
         p\<lparr>heap := (heap p)[r := (heap p ! r)\<lparr>context_device := Some ctx2\<rparr>]\<rparr>, [])
      \<and> r \<in> set (accessories p) \<and> r < length (heap p))
   \<and> (getAccessory uuid p = None \<and> valid_refs p \<longrightarrow>
      resolve_twice uuid name1 ctx1 name2 ctx2 p =
        (\<lparr>accessory = length (heap p), existing = False\<rparr>,
         \<lparr>accessory = Suc (length (heap p)), existing = False\<rparr>,
         p\<lparr>heap := heap p @ [\<lparr>UUID = uuid, displayName = name1, context_device = Some ctx1\<rparr>,
                              \<lparr>UUID = uuid, displayName = name2, context_device = Some ctx2\<rparr>]\<rparr>,
         [Log Debug [Text ''Could not find existing accessory in pool: '', Joined (accessories p)],
          Log Debug [Text ''Could not find existing accessory in pool: '', Joined (accessories p)]]))
   \<and> existing (fst (createAccessory uuid name1 ctx1 p)) = (getAccessory uuid p \<noteq> None)
   \<and> filter isRegister (snd (snd (createAccessory uuid name1 ctx1 p))) = []"
proof (intro conjI impI)
  assume a: "getAccessory uuid p = Some r"
  let ?p1 = "p\<lparr>heap := (heap p)[r := (heap p ! r)\<lparr>context_device := Some ctx1\<rparr>]\<rparr>"
  have 1: "createAccessory uuid name1 ctx1 p = (\<lparr>accessory = r, existing = True\<rparr>, ?p1, [])"
    using a by (rule createAccessory_cached)
  have "getAccessory uuid ?p1 = Some r"
    using a by (simp add: getAccessory_context_update)
  then have 2: "createAccessory uuid name2 ctx2 ?p1 =
      (\<lparr>accessory = r, existing = True\<rparr>,
       ?p1\<lparr>heap := (heap ?p1)[r := (heap ?p1 ! r)\<lparr>context_device := Some ctx2\<rparr>]\<rparr>, [])"
    by (rule createAccessory_cached)
  have r: "r < length (heap p)" using a getAccessory_Some by blast
  show "resolve_twice uuid name1 ctx1 name2 ctx2 p =
        (\<lparr>accessory = r, existing = True\<rparr>, \<lparr>accessory = r, existing = True\<rparr>,
         p\<lparr>heap := (heap p)[r := (heap p ! r)\<lparr>context_device := Some ctx2\<rparr>]\<rparr>, [])"
    using r by (simp add: resolve_twice_def 1 2)
  show "r \<in> set (accessories p)" using a getAccessory_Some by blast
  show "r < length (heap p)" by (rule r)
next
  assume a: "getAccessory uuid p = None \<and> valid_refs p"
  let ?o1 = "\<lparr>UUID = uuid, displayName = name1, context_device = Some ctx1\<rparr>"
  let ?p1 = "p\<lparr>heap := heap p @ [?o1]\<rparr>"
  have 1: "createAccessory uuid name1 ctx1 p =
      (\<lparr>accessory = length (heap p), existing = False\<rparr>, ?p1,
       [Log Debug [Text ''Could not find existing accessory in pool: '', Joined (accessories p)]])"
    using a by (simp add: createAccessory_absent)
  have "getAccessory uuid ?p1 = None"
    using a by (simp add: getAccessory_alloc valid_refs_def)
  then have 2: "createAccessory uuid name2 ctx2 ?p1 =
      (\<lparr>accessory = length (heap ?p1), existing = False\<rparr>,
       ?p1\<lparr>heap := heap ?p1 @ [\<lparr>UUID = uuid, displayName = name2, context_device = Some ctx2\<rparr>]\<rparr>,
       [Log Debug [Text ''Could not find existing accessory in pool: '', Joined (accessories ?p1)]])"
    by (rule createAccessory_absent)
  show "resolve_twice uuid name1 ctx1 name2 ctx2 p =
        (\<lparr>accessory = length (heap p), existing = False\<rparr>,
         \<lparr>accessory = Suc (length (heap p)), existing = False\<rparr>,
         p\<lparr>heap := heap p @ [\<lparr>UUID = uuid, displayName = name1, context_device = Some ctx1\<rparr>,
                              \<lparr>UUID = uuid, displayName = name2, context_device = Some ctx2\<rparr>]\<rparr>,
         [Log Debug [Text ''Could not find existing accessory in pool: '', Joined (accessories p)],
          Log Debug [Text ''Could not find existing accessory in pool: '', Joined (accessories p)]])"
    by (simp add: resolve_twice_def 1 2)
next
  show "existing (fst (createAccessory uuid name1 ctx1 p)) = (getAccessory uuid p \<noteq> None)"
    by (simp add: createAccessory_def Let_def split_def)
  show "filter isRegister (snd (snd (createAccessory uuid name1 ctx1 p))) = []"
    by (simp add: createAccessory_def Let_def split_def split: option.splits)
qed

theorem resolve_accessory_witness:
  "getAccessory ''uuid-d2'' scenario_cached = Some 0
   \<and> resolve_twice ''uuid-d2'' ''Smoke''
        (DeviceContext (scenario_device ''d2'' ''SMOKE'' ''Smoke'')) ''Renamed''
        (DeviceContext (scenario_device ''d2'' ''SMOKE'' ''Renamed'')) scenario_cached
     = (\<lparr>accessory = 0, existing = True\<rparr>, \<lparr>accessory = 0, existing = True\<rparr>,
        scenario_cached\<lparr>heap := [\<lparr>UUID = ''uuid-d2'', displayName = ''Smoke'',
           context_device = Some (DeviceContext (scenario_device ''d2'' ''SMOKE'' ''Renamed''))\<rparr>]\<rparr>,
        [])
   \<and> getAccessory ''uuid-d1'' scenario_cached = None \<and> valid_refs scenario_cached
   \<and> fst (snd (snd (resolve_twice ''uuid-d1'' ''Shutter''
        (DeviceContext (scenario_device ''d1'' ''FULL_FLUSH_SHUTTER'' ''Shutter'')) ''Renamed''
        (DeviceContext (scenario_device ''d1'' ''FULL_FLUSH_SHUTTER'' ''Renamed'')) scenario_cached)))
     = scenario_cached\<lparr>heap := heap scenario_cached @
         [\<lparr>UUID = ''uuid-d1'', displayName = ''Shutter'',
           context_device =
             Some (DeviceContext (scenario_device ''d1'' ''FULL_FLUSH_SHUTTER'' ''Shutter''))\<rparr>,
          \<lparr>UUID = ''uuid-d1'', displayName = ''Renamed'',
           context_device =
             Some (DeviceContext (scenario_device ''d1'' ''FULL_FLUSH_SHUTTER'' ''Renamed''))\<rparr>]\<rparr>"
proof -
  have h2: "getAccessory ''uuid-d2'' scenario_cached = Some 0"
    by (simp add: scenario_cached_def configureAccessory_def getAccessory_def new_platform_def
          Let_def)
  have h3: "getAccessory ''uuid-d1'' scenario_cached = None \<and> valid_refs scenario_cached"
    by (simp add: scenario_cached_def configureAccessory_def getAccessory_def new_platform_def
          Let_def valid_refs_def)
  have h4: "heap scenario_cached
              = [\<lparr>UUID = ''uuid-d2'', displayName = ''Smoke'', context_device = None\<rparr>]"
    by (simp add: scenario_cached_def configureAccessory_def getAccessory_def new_platform_def
          Let_def)
  show ?thesis
    using h2 h3 h4
      resolve_accessory [of "''uuid-d2''" scenario_cached 0 "''Smoke''"
        "DeviceContext (scenario_device ''d2'' ''SMOKE'' ''Smoke'')" "''Renamed''"
        "DeviceContext (scenario_device ''d2'' ''SMOKE'' ''Renamed'')"]
      resolve_accessory [of "''uuid-d1''" scenario_cached 0 "''Shutter''"
        "DeviceContext (scenario_device ''d1'' ''FULL_FLUSH_SHUTTER'' ''Shutter'')" "''Renamed''"
        "DeviceContext (scenario_device ''d1'' ''FULL_FLUSH_SHUTTER'' ''Renamed'')"]
    by simp
qed

text \<open>
  On a platform without restored accessories, two calls for one UUID return two
  different accessories, and the first keeps the context of the first call.
\<close>

theorem resolve_twice_counterexample:
  "accessory (fst (resolve_twice ''uuid-d1'' ''Shutter''
        (DeviceContext (scenario_device ''d1'' ''FULL_FLUSH_SHUTTER'' ''Shutter'')) ''Renamed''
        (DeviceContext (scenario_device ''d1'' ''FULL_FLUSH_SHUTTER'' ''Renamed'')) new_platform))
     \<noteq> accessory (fst (snd (resolve_twice ''uuid-d1'' ''Shutter''
        (DeviceContext (scenario_device ''d1'' ''FULL_FLUSH_SHUTTER'' ''Shutter'')) ''Renamed''
        (DeviceContext (scenario_device ''d1'' ''FULL_FLUSH_SHUTTER'' ''Renamed'')) new_platform)))
   \<and> map UUID (heap (fst (snd (snd (resolve_twice ''uuid-d1'' ''Shutter''
        (DeviceContext (scenario_device ''d1'' ''FULL_FLUSH_SHUTTER'' ''Shutter'')) ''Renamed''
        (DeviceContext (scenario_device ''d1'' ''FULL_FLUSH_SHUTTER'' ''Renamed'')) new_platform)))))
     = [''uuid-d1'', ''uuid-d1'']
   \<and> map context_device (heap (fst (snd (snd (resolve_twice ''uuid-d1'' ''Shutter''
        (DeviceContext (scenario_device ''d1'' ''FULL_FLUSH_SHUTTER'' ''Shutter'')) ''Renamed''
        (DeviceContext (scenario_device ''d1'' ''FULL_FLUSH_SHUTTER'' ''Renamed'')) new_platform)))))
     = [Some (DeviceContext (scenario_device ''d1'' ''FULL_FLUSH_SHUTTER'' ''Shutter'')),
        Some (DeviceContext (scenario_device ''d1'' ''FULL_FLUSH_SHUTTER'' ''Renamed''))]"
  by (simp add: resolve_twice_def createAccessory_def getAccessory_def new_platform_def Let_def)

section \<open>Binding one device\<close>

lemma set_update_subset: "set (AList.update k v al) \<subseteq> insert (k, v) (set al)"
  by (induction al) auto


lemma updateAccessory_unsupported:
  assumes "behaviour_of (device_type device) = None"
  shows "updateAccessory generate ident hm device p =
           (fst (snd (createAccessory (generate ident) (label device) (DeviceContext device) p)),
            snd (snd (createAccessory (generate ident) (label device) (DeviceContext device) p))
              @ [Log Warn [Text (''Device not implemented: '' @ modelType device
                                  @ '' - '' @ label device)]])"
  using assms by (simp add: updateAccessory_def Let_def split_def)

lemma updateAccessory_supported:
  assumes "behaviour_of (device_type device) = Some b"
    and "createAccessory (generate ident) (label device) (DeviceContext device) p = (a, p1, fx)"
  shows "updateAccessory generate ident hm device p =
           (p1\<lparr>deviceMap :=
                 AList.update ident
                   \<lparr>behaviour = b, device_home = hm, device_accessory = accessory a\<rparr>
                   (deviceMap p1)\<rparr>,
            fx @ (if b = HmIPHomeControlAccessPoint
                  then [Log Debug [Text ''Creating: '', Json_device device]] else [])
               @ [Construct \<lparr>behaviour = b, device_home = hm, device_accessory = accessory a\<rparr>,
                  Register a])"
  using assms by (simp add: updateAccessory_def Let_def)

lemma updateAccessory_frame:
  assumes "updateAccessory generate ident hm device p = (p', fx)"
  shows "accessories p' = accessories p" and "groups p' = groups p" and "home p' = home p"
    and "length (heap p) \<le> length (heap p')"
    and "\<And>i. i < length (heap p) \<Longrightarrow> UUID (heap p' ! i) = UUID (heap p ! i)"
proof -
  obtain a p1 fx1 where
    c: "createAccessory (generate ident) (label device) (DeviceContext device) p = (a, p1, fx1)"
    by (metis prod_cases3)
  have h: "heap p' = heap p1 \<and> accessories p' = accessories p1 \<and> groups p' = groups p1
           \<and> home p' = home p1"
    using assms c by (auto simp: updateAccessory_def Let_def split: option.splits)
  from h createAccessory_frame [OF c]
  show "accessories p' = accessories p" "groups p' = groups p" "home p' = home p"
       "length (heap p) \<le> length (heap p')"
       "\<And>i. i < length (heap p) \<Longrightarrow> UUID (heap p' ! i) = UUID (heap p ! i)"
    by simp_all
qed

lemma updateAccessory_keys:
  "fst ` set (deviceMap (fst (updateAccessory generate ident hm device p)))
     = fst ` set (deviceMap p)
       \<union> (if behaviour_of (device_type device) = None then {} else {ident})"
proof -
  obtain a p1 fx1 where
    c: "createAccessory (generate ident) (label device) (DeviceContext device) p = (a, p1, fx1)"
    by (metis prod_cases3)
  show ?thesis
  proof (cases "behaviour_of (device_type device)")
    case None
    then show ?thesis
      using c createAccessory_frame(2) [OF c] by (simp add: updateAccessory_unsupported)
  next
    case (Some b)
    then show ?thesis
      using createAccessory_frame(2) [OF c]
      by (simp add: updateAccessory_supported [where generate = generate and ident = ident, OF Some c] AList.dom_update)
  qed
qed

lemma updateAccessory_registers:
  "length (filter isRegister (snd (updateAccessory generate ident hm device p)))
     = (if behaviour_of (device_type device) = None then 0 else 1)"
  by (simp add: updateAccessory_def Let_def split_def createAccessory_no_register
           split: option.splits)

lemma updateAccessory_handles:
  "\<forall>(k, h) \<in> set (deviceMap (fst (updateAccessory generate ident hm device p))).
      (k, h) \<in> set (deviceMap p) \<or> device_home h = hm"
proof -
  obtain a p1 fx1 where
    c: "createAccessory (generate ident) (label device) (DeviceContext device) p = (a, p1, fx1)"
    by (metis prod_cases3)
  note f = createAccessory_frame [OF c]
  show ?thesis
  proof (cases "behaviour_of (device_type device)")
    case None
    then show ?thesis using c f(2) by (auto simp: updateAccessory_unsupported)
  next
    case (Some b)
    let ?h = "\<lparr>behaviour = b, device_home = hm, device_accessory = accessory a\<rparr>"
    show ?thesis
      using f(2) set_update_subset [of ident ?h "deviceMap p1"]
      by (auto simp: updateAccessory_supported [where generate = generate and ident = ident,
                       OF Some c])
  qed
qed


text \<open>
  C10. In the round of the discovery loop for a device of an unsupported type,
  \<open>createAccessory\<close> has run before the type is looked at. If an accessory with the
  device's UUID is in \<open>this.accessories\<close>, that accessory's context now is the skipped
  device; otherwise a new accessory with the device's label, UUID and payload has been
  constructed. Nothing else of the platform has changed.
\<close>

theorem skipped_device_touches_accessory:
  assumes "behaviour_of (device_type device) = None"
  shows "(getAccessory (generate ident) p = Some r \<longrightarrow>
            fst (updateAccessory generate ident hm device p)
              = p\<lparr>heap := (heap p)[r := (heap p ! r)
                                     \<lparr>context_device := Some (DeviceContext device)\<rparr>]\<rparr>
            \<and> r \<in> set (accessories p) \<and> r < length (heap p)
            \<and> context_device (heap (fst (updateAccessory generate ident hm device p)) ! r)
                = Some (DeviceContext device))
       \<and> (getAccessory (generate ident) p = None \<longrightarrow>
            fst (updateAccessory generate ident hm device p)
              = p\<lparr>heap := heap p @ [\<lparr>UUID = generate ident, displayName = label device,
                                      context_device = Some (DeviceContext device)\<rparr>]\<rparr>)"
proof (intro conjI impI)
  assume a: "getAccessory (generate ident) p = Some r"
  show "fst (updateAccessory generate ident hm device p)
              = p\<lparr>heap := (heap p)[r := (heap p ! r)
                                     \<lparr>context_device := Some (DeviceContext device)\<rparr>]\<rparr>"
    using assms a by (simp add: updateAccessory_unsupported createAccessory_cached)
  show "r \<in> set (accessories p)" "r < length (heap p)"
    using a getAccessory_Some by blast+
  then show "context_device (heap (fst (updateAccessory generate ident hm device p)) ! r)
                = Some (DeviceContext device)"
    using assms a by (simp add: updateAccessory_unsupported createAccessory_cached)
next
  assume a: "getAccessory (generate ident) p = None"
  show "fst (updateAccessory generate ident hm device p)
              = p\<lparr>heap := heap p @ [\<lparr>UUID = generate ident, displayName = label device,
                                      context_device = Some (DeviceContext device)\<rparr>]\<rparr>"
    using assms a by (simp add: updateAccessory_unsupported createAccessory_absent)
qed

theorem skipped_device_touches_accessory_witness:
  "behaviour_of (device_type (scenario_device ''d2'' ''SMOKE'' ''Smoke'')) = None
   \<and> getAccessory ''uuid-d2'' scenario_cached = Some 0
   \<and> context_device (heap scenario_cached ! 0) = None
   \<and> context_device (heap (fst (updateAccessory (\<lambda>s. ''uuid-'' @ s) ''d2'' None
        (scenario_device ''d2'' ''SMOKE'' ''Smoke'') scenario_cached)) ! 0)
       = Some (DeviceContext (scenario_device ''d2'' ''SMOKE'' ''Smoke''))
   \<and> getAccessory ''uuid-d2'' new_platform = None
   \<and> heap (fst (updateAccessory (\<lambda>s. ''uuid-'' @ s) ''d2'' None
        (scenario_device ''d2'' ''SMOKE'' ''Smoke'') new_platform))
       = [\<lparr>UUID = ''uuid-d2'', displayName = ''Smoke'',
           context_device = Some (DeviceContext (scenario_device ''d2'' ''SMOKE'' ''Smoke''))\<rparr>]"
proof -
  let ?d = "scenario_device ''d2'' ''SMOKE'' ''Smoke''"
  have h1: "behaviour_of (device_type ?d) = None"
    by (simp add: behaviour_of_def scenario_device_def)
  have h2: "getAccessory ''uuid-d2'' scenario_cached = Some 0"
    by (simp add: scenario_cached_def configureAccessory_def getAccessory_def new_platform_def
          Let_def)
  have h3: "getAccessory ''uuid-d2'' new_platform = None"
    by (simp add: getAccessory_def new_platform_def)
  have h4: "context_device (heap scenario_cached ! 0) = None"
    by (simp add: scenario_cached_def configureAccessory_def getAccessory_def new_platform_def
          Let_def)
  have h5: "heap new_platform = []"
    by (simp add: new_platform_def)
  show ?thesis
    using h1 h2 h3 h4 h5
      skipped_device_touches_accessory [OF h1, of "\<lambda>s. ''uuid-'' @ s" "''d2''" scenario_cached 0 None]
      skipped_device_touches_accessory [OF h1, of "\<lambda>s. ''uuid-'' @ s" "''d2''" new_platform 0 None]
    by (simp add: scenario_device_def)
qed

section \<open>Discovery\<close>

text \<open>
  \<open>scenario_engine\<close> is what discovery leaves behind for \<open>scenario_snapshot\<close> on a new
  platform, with \<open>uuid-\<close> prefixed to the device identity as the UUID.
\<close>

lemma scenario_engine_discovered:
  "discoverDevices (\<lambda>s. ''uuid-'' @ s) True scenario_snapshot new_platform
     = (platform scenario_engine, Some (hmIPState scenario_engine),
        [Connector_init, Connector_apiCall ''home/getCurrentState'',
         Log Debug [Text ''Could not find existing accessory in pool: '', Joined []],
         Construct \<lparr>behaviour = HmIPShutter, device_home = None, device_accessory = 0\<rparr>,
         Register \<lparr>accessory = 0, existing = False\<rparr>,
         Connector_connectWs])"
  by (simp add: discoverDevices_def scenario_snapshot_def scenario_engine_def new_platform_def
      setHome_def updateHomeAccessories_def updateAccessory_def createAccessory_def
      getAccessory_def behaviour_of_def scenario_device_def Let_def)

text \<open>
  The loop binds exactly the devices of a supported type, registers once for each of
  them, never assigns \<open>this.home\<close>, and gives every handle the value of \<open>this.home\<close>.
\<close>

lemma bindDevices_keys:
  "fst ` set (deviceMap (fst (bindDevices generate devs p)))
     = fst ` set (deviceMap p)
       \<union> {k. \<exists>d. (k, d) \<in> set devs \<and> behaviour_of (device_type d) \<noteq> None}"
proof (induction devs arbitrary: p)
  case Nil
  then show ?case by simp
next
  case (Cons a devs)
  obtain ident device where a: "a = (ident, device)" by (cases a)
  show ?case
    unfolding a
    by (simp add: split_def Let_def Cons.IH updateAccessory_keys) auto
qed

lemma bindDevices_registers:
  "length (filter isRegister (snd (bindDevices generate devs p)))
     = length (filter (\<lambda>(k, d). behaviour_of (device_type d) \<noteq> None) devs)"
proof (induction devs arbitrary: p)
  case Nil
  then show ?case by simp
next
  case (Cons a devs)
  obtain ident device where a: "a = (ident, device)" by (cases a)
  show ?case
    unfolding a by (simp add: split_def Let_def Cons.IH updateAccessory_registers)
qed

lemma bindDevices_home: "home (fst (bindDevices generate devs p)) = home p"
proof (induction devs arbitrary: p)
  case Nil
  then show ?case by simp
next
  case (Cons a devs)
  obtain ident device where a: "a = (ident, device)" by (cases a)
  have "home (fst (updateAccessory generate ident (home p) device p)) = home p"
    using updateAccessory_frame(3) [of generate ident "home p" device p] by (metis prod.collapse)
  then show ?case
    unfolding a by (simp add: split_def Let_def Cons.IH)
qed

lemma bindDevices_handles:
  "\<forall>(k, h) \<in> set (deviceMap (fst (bindDevices generate devs p))).
      (k, h) \<in> set (deviceMap p) \<or> device_home h = home p"
proof (induction devs arbitrary: p)
  case Nil
  then show ?case by auto
next
  case (Cons a devs)
  obtain ident device where a: "a = (ident, device)" by (cases a)
  let ?p1 = "fst (updateAccessory generate ident (home p) device p)"
  have hp: "home ?p1 = home p"
    using updateAccessory_frame(3) [of generate ident "home p" device p] by (metis prod.collapse)
  have "\<forall>(k, h) \<in> set (deviceMap (fst (bindDevices generate devs ?p1))).
          (k, h) \<in> set (deviceMap ?p1) \<or> device_home h = home p"
    using Cons.IH [of ?p1] hp by simp
  moreover have "\<forall>(k, h) \<in> set (deviceMap ?p1). (k, h) \<in> set (deviceMap p) \<or> device_home h = home p"
    by (rule updateAccessory_handles)
  ultimately show ?case
    unfolding a by (fastforce simp: split_def Let_def)
qed


lemma discoverDevices_keys:
  "fst ` set (deviceMap (fst (discoverDevices generate init_ok snapshot p)))
     = fst ` set (deviceMap p)
       \<union> (if init_ok
          then {k. \<exists>d. (k, d) \<in> set (state_devices snapshot)
                       \<and> behaviour_of (device_type d) \<noteq> None}
          else {})"
  by (simp add: discoverDevices_def setHome_def updateHomeAccessories_def Let_def split_def
        bindDevices_keys)

lemma discoverDevices_home:
  "home (fst (discoverDevices generate init_ok snapshot p)) = home p"
  by (simp add: discoverDevices_def setHome_def updateHomeAccessories_def Let_def split_def
        bindDevices_home)

lemma discoverDevices_handles:
  assumes "deviceMap p = []"
  shows "\<forall>(k, h) \<in> set (deviceMap (fst (discoverDevices generate init_ok snapshot p))).
           device_home h = home p"
proof (cases init_ok)
  case False
  then show ?thesis using assms by (simp add: discoverDevices_def)
next
  case True
  show ?thesis
    using True assms
      bindDevices_handles [of generate "state_devices snapshot" "p\<lparr>groups := state_groups snapshot\<rparr>"]
    by (simp add: discoverDevices_def setHome_def updateHomeAccessories_def Let_def split_def)
qed


text \<open>
  C4. When \<open>connector.init()\<close> reports failure, \<open>discoverDevices\<close> returns at once: the
  platform (groups, home, device binding table, accessories) is the one it started
  with, no \<open>hmIPState\<close> exists because the snapshot is never fetched, and the only call
  made on the connector is \<open>init\<close> itself, so there is neither an \<open>apiCall\<close> nor a
  \<open>connectWs\<close>. Whatever the feed would deliver afterwards is not handled, since no
  callback was subscribed.
\<close>

theorem init_failure_aborts:
  "discoverDevices generate False snapshot p = (p, None, [Connector_init])
   \<and> lifecycle generate False snapshot msgs p = (p, None, [Connector_init])"
  by (simp add: discoverDevices_def lifecycle_def)

text \<open>
  C6. The round of the discovery loop for a device of an unsupported type leaves
  \<open>deviceMap\<close> and \<open>this.accessories\<close> as they were, makes no \<open>register\<close> call and ends
  with the warning \<open>Device not implemented\<close>. Over the whole pass: an identity whose
  device in the snapshot is unsupported, and which was not bound before, is not a key
  of \<open>deviceMap\<close> afterwards, and the pass makes as many \<open>register\<close> calls as the
  snapshot has devices of a supported type.
\<close>

theorem unsupported_device_skipped:
  assumes "behaviour_of (device_type device) = None"
  shows "deviceMap (fst (updateAccessory generate ident hm device p)) = deviceMap p
       \<and> accessories (fst (updateAccessory generate ident hm device p)) = accessories p
       \<and> filter isRegister (snd (updateAccessory generate ident hm device p)) = []
       \<and> last (snd (updateAccessory generate ident hm device p))
           = Log Warn [Text (''Device not implemented: '' @ modelType device
                              @ '' - '' @ label device)]
       \<and> ((ident, device) \<in> set (state_devices snapshot)
            \<and> distinct (map fst (state_devices snapshot))
            \<and> ident \<notin> fst ` set (deviceMap p) \<longrightarrow>
            ident \<notin> fst ` set (deviceMap (fst (discoverDevices generate init_ok snapshot p))))
       \<and> (init_ok \<longrightarrow>
            length (filter isRegister (snd (snd (discoverDevices generate init_ok snapshot p))))
              = length (filter (\<lambda>(k, d). behaviour_of (device_type d) \<noteq> None)
                          (state_devices snapshot)))"
proof -
  obtain a p1 fx1 where
    c: "createAccessory (generate ident) (label device) (DeviceContext device) p = (a, p1, fx1)"
    by (metis prod_cases3)
  note f = createAccessory_frame [OF c]
  have u: "updateAccessory generate ident hm device p =
             (p1, fx1 @ [Log Warn [Text (''Device not implemented: '' @ modelType device
                                          @ '' - '' @ label device)]])"
    using assms c by (simp add: updateAccessory_unsupported)
  have r: "filter isRegister fx1 = []"
    using createAccessory_no_register [of "generate ident" "label device" "DeviceContext device" p] c
    by simp
  have pass: "ident \<notin> fst ` set (deviceMap (fst (discoverDevices generate init_ok snapshot p)))"
    if "(ident, device) \<in> set (state_devices snapshot)
            \<and> distinct (map fst (state_devices snapshot))
            \<and> ident \<notin> fst ` set (deviceMap p)"
  proof -
    have "d = device" if "(ident, d) \<in> set (state_devices snapshot)" for d
      using that \<open>(ident, device) \<in> set (state_devices snapshot)
            \<and> distinct (map fst (state_devices snapshot))
            \<and> ident \<notin> fst ` set (deviceMap p)\<close>
      by (meson eq_key_imp_eq_value)
    then show ?thesis
      using that assms by (auto simp: discoverDevices_keys)
  qed
  have cnt: "length (filter isRegister (snd (snd (discoverDevices generate init_ok snapshot p))))
              = length (filter (\<lambda>(k, d). behaviour_of (device_type d) \<noteq> None)
                          (state_devices snapshot))" if init_ok
    using that
    by (simp add: discoverDevices_def setHome_def updateHomeAccessories_def Let_def split_def
          bindDevices_registers)
  show ?thesis
    using u r f(1) f(2) pass cnt by simp
qed

theorem unsupported_device_skipped_witness:
  "behaviour_of (device_type (scenario_device ''d2'' ''SMOKE'' ''Smoke'')) = None
   \<and> (''d2'', scenario_device ''d2'' ''SMOKE'' ''Smoke'') \<in> set (state_devices scenario_snapshot2)
   \<and> distinct (map fst (state_devices scenario_snapshot2))
   \<and> ''d2'' \<notin> fst ` set (deviceMap new_platform)
   \<and> deviceMap (fst (updateAccessory (\<lambda>s. ''uuid-'' @ s) ''d2'' None
                        (scenario_device ''d2'' ''SMOKE'' ''Smoke'') new_platform)) = []
   \<and> filter isRegister (snd (updateAccessory (\<lambda>s. ''uuid-'' @ s) ''d2'' None
                        (scenario_device ''d2'' ''SMOKE'' ''Smoke'') new_platform)) = []
   \<and> last (snd (updateAccessory (\<lambda>s. ''uuid-'' @ s) ''d2'' None
                        (scenario_device ''d2'' ''SMOKE'' ''Smoke'') new_platform))
       = Log Warn [Text ''Device not implemented: HmIP - Smoke'']
   \<and> ''d2'' \<notin> fst ` set (deviceMap (fst (discoverDevices (\<lambda>s. ''uuid-'' @ s) True
                                            scenario_snapshot2 new_platform)))
   \<and> length (filter isRegister (snd (snd (discoverDevices (\<lambda>s. ''uuid-'' @ s) True
                                            scenario_snapshot2 new_platform)))) = 2"
proof -
  let ?d = "scenario_device ''d2'' ''SMOKE'' ''Smoke''"
  have h1: "behaviour_of (device_type ?d) = None"
    by (simp add: behaviour_of_def scenario_device_def)
  have h2: "(''d2'', ?d) \<in> set (state_devices scenario_snapshot2)
            \<and> distinct (map fst (state_devices scenario_snapshot2))
            \<and> ''d2'' \<notin> fst ` set (deviceMap new_platform)"
    by (simp add: scenario_snapshot2_def new_platform_def)
  have h3: "length (filter (\<lambda>(k, d). behaviour_of (device_type d) \<noteq> None)
                          (state_devices scenario_snapshot2)) = 2"
    by (simp add: scenario_snapshot2_def behaviour_of_def scenario_device_def)
  have h4: "deviceMap new_platform = []"
    by (simp add: new_platform_def)
  show ?thesis
    using h1 h2 h3 h4
      unsupported_device_skipped [OF h1, of "\<lambda>s. ''uuid-'' @ s" "''d2''" None new_platform
                                    scenario_snapshot2 True]
    by (simp add: scenario_device_def)
qed

text \<open>
  C2. The snapshot with the one shutter \<open>d1\<close>, discovered on a new platform: the handle
  is stored under \<open>d1\<close> and its accessory is registered, but the home the handle carries
  is undefined, because \<open>this.home\<close> is still undefined after \<open>setHome\<close>, while the
  snapshot's normalised home exists in \<open>hmIPState\<close>.
\<close>

theorem bound_handle_home_undefined:
  "map_of (deviceMap (fst (discoverDevices (\<lambda>s. ''uuid-'' @ s) True scenario_snapshot
                             new_platform))) ''d1''
     = Some \<lparr>behaviour = HmIPShutter, device_home = None, device_accessory = 0\<rparr>
   \<and> home (fst (discoverDevices (\<lambda>s. ''uuid-'' @ s) True scenario_snapshot new_platform)) = None
   \<and> map_option state_home
       (fst (snd (discoverDevices (\<lambda>s. ''uuid-'' @ s) True scenario_snapshot new_platform)))
     = Some (normalize (scenario_home ''1.0''))
   \<and> filter isRegister
       (snd (snd (discoverDevices (\<lambda>s. ''uuid-'' @ s) True scenario_snapshot new_platform)))
     = [Register \<lparr>accessory = 0, existing = False\<rparr>]"
  by (simp add: discoverDevices_def scenario_snapshot_def new_platform_def
      setHome_def updateHomeAccessories_def updateAccessory_def createAccessory_def
      getAccessory_def behaviour_of_def scenario_device_def Let_def)

section \<open>Group events\<close>

text \<open>
  \<open>this.groups\<close> and \<open>hmIPState.groups\<close> are one object in the program. The two
  copies of the model are equal after discovery and stay equal under every event.
\<close>

lemma discoverDevices_groups:
  assumes "discoverDevices generate True snapshot p = (p', Some st, fx)"
  shows "groups p' = state_groups st"
proof -
  have "groups (fst (bindDevices generate devs q)) = groups q" for devs q
  proof (induction devs arbitrary: q)
    case Nil
    then show ?case by simp
  next
    case (Cons a devs)
    obtain ident device where a: "a = (ident, device)" by (cases a)
    have "groups (fst (updateAccessory generate ident (home q) device q)) = groups q"
      using updateAccessory_frame(2) [of generate ident "home q" device q]
      by (metis prod.collapse)
    then show ?case
      unfolding a by (simp add: split_def Let_def Cons.IH)
  qed
  then show ?thesis
    using assms
    by (auto simp: discoverDevices_def setHome_def updateHomeAccessories_def Let_def split_def)
qed

lemma handleEvent_groups:
  assumes "groups (platform e) = state_groups (hmIPState e)"
  shows "groups (platform (fst (handleEvent ev e)))
           = state_groups (hmIPState (fst (handleEvent ev e)))"
  using assms
  by (auto simp: handleEvent_def Let_def setHome_def updateHomeAccessories_def
           split: option.splits)







section \<open>Device events\<close>

text \<open>
  C5. A \<open>DEVICE_CHANGED\<close>, \<open>DEVICE_ADDED\<close> or \<open>DEVICE_REMOVED\<close> event whose device
  identity has no entry in \<open>deviceMap\<close> leaves the platform and \<open>hmIPState\<close> as they
  were; the calls made are the debug line and the warning
  \<open>Cannot find device: <id>\<close>, hence no registration and no unregistration.
\<close>

theorem unknown_device_event_is_noop:
  assumes "pushEventType ev = ''DEVICE_CHANGED'' \<or> pushEventType ev = ''DEVICE_ADDED''
             \<or> pushEventType ev = ''DEVICE_REMOVED''"
    and "ev_device ev = Some d"
    and "map_of (deviceMap (platform e)) (device_id d) = None"
  shows "handleEvent ev e =
           (e, [Log Debug [Text (pushEventType ev @ '': '' @ device_id d @ '' '' @ modelType d)],
                Log Warn [Text (''Cannot find device: '' @ device_id d)]])
         \<and> filter isRegister (snd (handleEvent ev e)) = []
         \<and> filter isUnregister (snd (handleEvent ev e)) = []"
  using assms by (auto simp: handleEvent_def Let_def)

theorem unknown_device_event_is_noop_witness:
  "map_of (deviceMap (platform scenario_engine)) ''d2'' = None
   \<and> handleEvent (device_event ''DEVICE_CHANGED'' (scenario_device ''d2'' ''SMOKE'' ''Smoke''))
        scenario_engine
     = (scenario_engine,
        [Log Debug [Text ''DEVICE_CHANGED: d2 HmIP''], Log Warn [Text ''Cannot find device: d2'']])"
proof -
  have h: "map_of (deviceMap (platform scenario_engine))
             (device_id (scenario_device ''d2'' ''SMOKE'' ''Smoke'')) = None"
    by (simp add: scenario_engine_def scenario_device_def)
  show ?thesis
    using h unknown_device_event_is_noop
            [of "device_event ''DEVICE_CHANGED'' (scenario_device ''d2'' ''SMOKE'' ''Smoke'')"
                "scenario_device ''d2'' ''SMOKE'' ''Smoke''" scenario_engine]
    by (simp add: device_event_def scenario_device_def)
qed

text \<open>
  C3. A \<open>DEVICE_REMOVED\<close> event for an identity that has an entry in \<open>deviceMap\<close>:
  afterwards the identity is a key neither of \<open>deviceMap\<close> nor of \<open>hmIPState.devices\<close>,
  and handling the event made exactly one call of \<open>unregisterPlatformAccessories\<close>, with
  the accessory of the entry that was removed.
\<close>

theorem device_removed_known:
  assumes "pushEventType ev = ''DEVICE_REMOVED''"
    and "ev_device ev = Some d"
    and "map_of (deviceMap (platform e)) (device_id d) = Some h"
  shows "map_of (deviceMap (platform (fst (handleEvent ev e)))) (device_id d) = None
       \<and> device_id d \<notin> fst ` set (deviceMap (platform (fst (handleEvent ev e))))
       \<and> map_of (state_devices (hmIPState (fst (handleEvent ev e)))) (device_id d) = None
       \<and> device_id d \<notin> fst ` set (state_devices (hmIPState (fst (handleEvent ev e))))
       \<and> filter isUnregister (snd (handleEvent ev e))
           = [UnregisterPlatformAccessories [device_accessory h]]"
  using assms by (auto simp: handleEvent_def Let_def AList.delete_conv' AList.delete_notin_dom)

theorem device_removed_known_witness:
  "map_of (deviceMap (platform scenario_engine)) ''d1''
     = Some \<lparr>behaviour = HmIPShutter, device_home = None, device_accessory = 0\<rparr>
   \<and> map_of (deviceMap (platform (fst (handleEvent
        (device_event ''DEVICE_REMOVED'' (scenario_device ''d1'' ''FULL_FLUSH_SHUTTER'' ''Shutter''))
        scenario_engine)))) ''d1'' = None
   \<and> map_of (state_devices (hmIPState (fst (handleEvent
        (device_event ''DEVICE_REMOVED'' (scenario_device ''d1'' ''FULL_FLUSH_SHUTTER'' ''Shutter''))
        scenario_engine)))) ''d1'' = None
   \<and> filter isUnregister (snd (handleEvent
        (device_event ''DEVICE_REMOVED'' (scenario_device ''d1'' ''FULL_FLUSH_SHUTTER'' ''Shutter''))
        scenario_engine)) = [UnregisterPlatformAccessories [0]]"
proof -
  let ?d = "scenario_device ''d1'' ''FULL_FLUSH_SHUTTER'' ''Shutter''"
  let ?h = "\<lparr>behaviour = HmIPShutter, device_home = None, device_accessory = 0\<rparr>"
  have h: "map_of (deviceMap (platform scenario_engine)) (device_id ?d) = Some ?h"
    by (simp add: scenario_engine_def scenario_device_def)
  show ?thesis
    using h device_removed_known [of "device_event ''DEVICE_REMOVED'' ?d" ?d scenario_engine ?h]
    by (simp add: device_event_def scenario_device_def)
qed

section \<open>Home events\<close>

text \<open>
  What a \<open>HOME_CHANGED\<close> event with a home does: every handle gets the normalised home
  of the event, and \<open>updateDevice\<close> is called once on every handle, with the handle
  itself and the groups as arguments. \<open>this.home\<close> and \<open>hmIPState\<close> stay as they were, in
  this event and in every other.
\<close>

lemma handleEvent_home_changed:
  assumes "pushEventType ev = ''HOME_CHANGED''" and "ev_home ev = Some h"
  shows "handleEvent ev e =
     (\<lparr>platform = (platform e)
          \<lparr>deviceMap := map (\<lambda>(k, device). (k, device\<lparr>device_home := Some (normalize h)\<rparr>))
                           (deviceMap (platform e))\<rparr>,
       hmIPState = hmIPState e\<rparr>,
      Log Debug [Text (''HOME_CHANGED: '' @ home_id h @ '' ''), Json_home h]
        # map (\<lambda>(k, device).
                 UpdateDevice (device\<lparr>device_home := Some (normalize h)\<rparr>)
                   [Arg_handle (device\<lparr>device_home := Some (normalize h)\<rparr>),
                    Arg_groups (groups (platform e))])
              (deviceMap (platform e)))"
  using assms
  by (simp add: handleEvent_def Let_def setHome_def updateHomeAccessories_def split_def comp_def)

lemma handleEvent_home: "home (platform (fst (handleEvent ev e))) = home (platform e)"
  by (auto simp: handleEvent_def Let_def setHome_def updateHomeAccessories_def
           split: option.splits)

lemma onMessage_home: "home (platform (fst (onMessage evs e))) = home (platform e)"
  by (induction evs arbitrary: e) (simp_all add: split_def Let_def handleEvent_home)

lemma feed_home: "home (platform (fst (feed msgs e))) = home (platform e)"
  by (induction msgs arbitrary: e) (simp_all add: split_def Let_def onMessage_home)

lemma lifecycle_home: "home (fst (lifecycle generate init_ok snapshot msgs p)) = home p"
proof -
  obtain p1 st fx where d: "discoverDevices generate init_ok snapshot p = (p1, st, fx)"
    by (metis prod_cases3)
  have "home p1 = home p"
    using discoverDevices_home [of generate init_ok snapshot p] d by simp
  then show ?thesis
    using d feed_home [of msgs] by (cases st) (simp_all add: lifecycle_def split_def Let_def)
qed

text \<open>
  C1. A \<open>HOME_CHANGED\<close> event with access-point version \<open>2.0\<close>, after the discovery of
  the shutter \<open>d1\<close>: the handle of \<open>d1\<close> holds the new home with firmware version \<open>2.0\<close>
  and receives one \<open>updateDevice\<close> call, whose arguments are the handle and the groups,
  not the home. \<open>this.home\<close> is still undefined and \<open>hmIPState.home\<close> still has firmware
  version \<open>1.0\<close>, and a \<open>DEVICE_CHANGED\<close> event for \<open>d1\<close> that follows dispatches
  \<open>updateDevice\<close> with an undefined home.
\<close>

theorem home_changed_dispatch:
  "handleEvent (home_event (scenario_home ''2.0'')) scenario_engine =
     (\<lparr>platform = (platform scenario_engine)
          \<lparr>deviceMap :=
             [(''d1'', \<lparr>behaviour = HmIPShutter,
                        device_home = Some (normalize (scenario_home ''2.0'')),
                        device_accessory = 0\<rparr>)]\<rparr>,
       hmIPState = hmIPState scenario_engine\<rparr>,
      [Log Debug [Text ''HOME_CHANGED: home '', Json_home (scenario_home ''2.0'')],
       UpdateDevice
         \<lparr>behaviour = HmIPShutter, device_home = Some (normalize (scenario_home ''2.0'')),
          device_accessory = 0\<rparr>
         [Arg_handle \<lparr>behaviour = HmIPShutter,
                      device_home = Some (normalize (scenario_home ''2.0'')),
                      device_accessory = 0\<rparr>,
          Arg_groups no_groups]])
   \<and> home (platform (fst (handleEvent (home_event (scenario_home ''2.0'')) scenario_engine)))
       = None
   \<and> firmwareVersion (state_home (hmIPState
         (fst (handleEvent (home_event (scenario_home ''2.0'')) scenario_engine))))
       = Some ''1.0''
   \<and> firmwareVersion (normalize (scenario_home ''2.0'')) = Some ''2.0''
   \<and> filter isUpdateDevice
        (snd (onMessage
                [home_event (scenario_home ''2.0''),
                 device_event ''DEVICE_CHANGED''
                   (scenario_device ''d1'' ''FULL_FLUSH_SHUTTER'' ''Shutter'')]
                scenario_engine))
       = [UpdateDevice
            \<lparr>behaviour = HmIPShutter, device_home = Some (normalize (scenario_home ''2.0'')),
             device_accessory = 0\<rparr>
            [Arg_handle \<lparr>behaviour = HmIPShutter,
                         device_home = Some (normalize (scenario_home ''2.0'')),
                         device_accessory = 0\<rparr>,
             Arg_groups no_groups],
          UpdateDevice
            \<lparr>behaviour = HmIPShutter, device_home = Some (normalize (scenario_home ''2.0'')),
             device_accessory = 0\<rparr>
            [Arg_home None,
             Arg_device (scenario_device ''d1'' ''FULL_FLUSH_SHUTTER'' ''Shutter''),
             Arg_groups no_groups]]"
  by (simp add: handleEvent_def home_event_def device_event_def scenario_engine_def
        scenario_snapshot_def scenario_device_def
        setHome_def updateHomeAccessories_def normalize_def scenario_home_def Let_def)

section \<open>The device binding table over a run\<close>





text \<open>
  Nothing in the program compares UUIDs. A generator whose results all have one length,
  as a UUID generator's have, gives some two identities the same UUID, and the discovery
  of two shutters with such identities binds both to accessories with that UUID.
\<close>

lemma fixed_length_collides:
  fixes generate :: "string \<Rightarrow> string"
  assumes "\<forall>s. length (generate s) = n"
  shows "\<exists>a b. a \<noteq> b \<and> generate a = generate b"
proof (rule ccontr)
  assume "\<not> (\<exists>a b. a \<noteq> b \<and> generate a = generate b)"
  then have i: "inj generate" by (auto simp: inj_def)
  have "finite {xs :: string. set xs \<subseteq> UNIV \<and> length xs = n}"
    by (rule finite_lists_length_eq) simp
  moreover have "range generate \<subseteq> {xs. set xs \<subseteq> UNIV \<and> length xs = n}"
    using assms by auto
  ultimately have "finite (range generate)" by (rule rev_finite_subset)
  then have "finite (UNIV :: string set)" using i by (rule finite_imageD)
  then show False using infinite_UNIV_listI by blast
qed

lemma collision_shares_identity:
  assumes "a \<noteq> b" and "generate a = generate b"
  shows "map fst (deviceMap (fst (lifecycle generate True (two_shutters a b) [] new_platform)))
           = [a, b]
       \<and> accessory_identities (fst (lifecycle generate True (two_shutters a b) [] new_platform))
           = [generate a, generate a]"
  using assms
  by (simp add: accessory_identities_def lifecycle_def discoverDevices_def two_shutters_def
        setHome_def updateHomeAccessories_def updateAccessory_def createAccessory_def
        getAccessory_def behaviour_of_def scenario_device_def new_platform_def Let_def)

lemma fixed_length_shares_identity:
  assumes "\<forall>s. length (generate s) = n"
  shows "\<exists>snapshot.
           \<not> distinct (accessory_identities (fst (lifecycle generate True snapshot [] new_platform)))"
proof -
  obtain a b where "a \<noteq> b" "generate a = generate b"
    using fixed_length_collides [OF assms] by blast
  then have "\<not> distinct (accessory_identities
                (fst (lifecycle generate True (two_shutters a b) [] new_platform)))"
    using collision_shares_identity [of a b generate] by simp
  then show ?thesis by blast
qed




end
